theory Spec2Isabelle
  imports Main "HOL-Library.Word" "HOL-Library.Multiset"
begin

unbundle bit_operations_syntax

section \<open>The ION system heaps (drivers/gpu/ion/ion_system_heap.c)\<close>

text \<open>
  A shallow embedding of the two heaps of \<^verbatim>\<open>ion_system_heap.c\<close>: the system heap, whose
  buffers are backed by an array of individually allocated pages, and the system-contig
  heap, whose buffers are one \<^verbatim>\<open>kzalloc\<close> block. The kernel the file runs in (the slab
  allocator, the page allocator, the kernel page tables, the scatterlist library and the
  address space of a process) is an explicit state: every primitive the file calls is a
  function on that state, and each of its possible failures is a branch.
\<close>

subsection \<open>Machine types and constants\<close>

text \<open>
  The target of this kernel tree is 32-bit ARM: \<^verbatim>\<open>unsigned long\<close>, \<^verbatim>\<open>int\<close> and pointers are
  32 bits wide. A pointer is its address, \<open>0\<close> is \<^verbatim>\<open>NULL\<close>. A \<^verbatim>\<open>struct page *\<close> is a page
  handle, \<open>0\<close> again \<^verbatim>\<open>NULL\<close>.
\<close>

type_synonym ulong = "32 word"
type_synonym addr = "32 word"
type_synonym page = nat

text \<open>
  Modelled from the spec: the macros \<^verbatim>\<open>PAGE_SHIFT\<close>, \<^verbatim>\<open>PAGE_SIZE\<close> and \<^verbatim>\<open>PAGE_ALIGN\<close>
  come from headers outside the file. The spec's scenarios use pages of 4096 bytes;
  \<^verbatim>\<open>PAGE_ALIGN(x)\<close> is the kernel's \<^verbatim>\<open>(x + PAGE_SIZE - 1) & ~(PAGE_SIZE - 1)\<close>, computed in
  \<^verbatim>\<open>unsigned long\<close>.
\<close>

definition PAGE_SHIFT :: nat where
  "PAGE_SHIFT = 12"

definition PAGE_SIZE :: ulong where
  "PAGE_SIZE = push_bit PAGE_SHIFT 1"

definition PAGE_ALIGN :: "ulong \<Rightarrow> ulong" where
  "PAGE_ALIGN x = (x + PAGE_SIZE - 1) AND NOT (PAGE_SIZE - 1)"

text \<open>The error numbers the file returns, negated, as \<^verbatim>\<open>int\<close>.\<close>

abbreviation ENOMEM :: int where "ENOMEM \<equiv> 12"
abbreviation EFAULT :: int where "EFAULT \<equiv> 14"
abbreviation EBUSY :: int where "EBUSY \<equiv> 16"
abbreviation EINVAL :: int where "EINVAL \<equiv> 22"

text \<open>
  \<^verbatim>\<open>int n_pages = PAGE_ALIGN(size) / PAGE_SIZE\<close>, the count every operation of the system
  heap computes from the size. The quotient is below \<open>2 ^ 20\<close>, so the conversion to
  \<^verbatim>\<open>int\<close> keeps it; the model holds it as a natural number.
\<close>

definition n_pages_of :: "ulong \<Rightarrow> nat" where
  "n_pages_of sz = unat (PAGE_ALIGN sz div PAGE_SIZE)"

text \<open>The spec's count, \<open>ceil(size / PAGE_SIZE)\<close>, on unbounded naturals.\<close>

definition page_count :: "nat \<Rightarrow> nat" where
  "page_count sz = (sz + 4095) div 4096"

subsection \<open>Kernel objects and kernel state\<close>

text \<open>\<^verbatim>\<open>struct scatterlist\<close>, as \<^verbatim>\<open>sg_set_page\<close> fills it.\<close>

record scatterlist =
  sg_page :: page
  sg_length :: ulong
  sg_offset :: ulong

text \<open>\<^verbatim>\<open>struct sg_table\<close>: the pointer to the entry table and the number of entries.\<close>

record sg_table_struct =
  sgl :: addr
  nents :: nat

text \<open>
  What a live slab allocation holds: the slot array of a page-list buffer
  (\<^verbatim>\<open>struct page *[n]\<close>), a zeroed block of bytes (the backing of a contiguous buffer;
  the file never writes to it), a \<^verbatim>\<open>struct sg_table\<close>, or the entry table of one.
\<close>

datatype kobj =
  PageArray "page list"
  | ZeroBlock nat
  | SgTable sg_table_struct
  | SgEntries "scatterlist list"

text \<open>
  The kernel, as far as the file can observe it. The three plans are the answers the
  environment will give: the addresses of the coming slab allocations, the pages of the
  coming \<^verbatim>\<open>alloc_page\<close> calls and the bases of the coming \<^verbatim>\<open>vm_map_ram\<close> ranges, \<open>0\<close>
  standing for a failed call (an exhausted plan fails as well). \<open>slab\<close> maps the address
  of every live slab allocation to its contents, \<open>pages_held\<close> counts the pages handed
  out and not yet given back, \<open>kpt\<close> is the kernel page table (page-aligned kernel
  virtual address to page) and \<open>lowmem_page\<close> is \<^verbatim>\<open>virt_to_page\<close> on the linear map.
\<close>

record kernel =
  kmalloc_plan :: "addr list"
  page_plan :: "page list"
  vmap_plan :: "addr list"
  slab :: "addr \<rightharpoonup> kobj"
  pages_held :: "page multiset"
  kpt :: "addr \<rightharpoonup> page"
  lowmem_page :: "addr \<Rightarrow> page"

text \<open>
  \<^verbatim>\<open>struct ion_buffer\<close>: the fields the file reads or writes (\<open>size_buf\<close> is the field
  \<^verbatim>\<open>size\<close>).
\<close>

record ion_buffer =
  size_buf :: ulong
  priv_virt :: addr
  sg_table :: addr
  vaddr :: addr

text \<open>
  A call either returns (\<open>Done\<close>) or ends in a kernel fault (\<open>Oops\<close>): a load or store
  through \<^verbatim>\<open>NULL\<close>, through a pointer to no live object, or past the end of one.
\<close>

datatype 'a outcome = Oops | Done 'a

subsection \<open>The primitives the file calls\<close>

text \<open>
  \<^verbatim>\<open>kmalloc\<close> and \<^verbatim>\<open>kzalloc\<close>: the next planned address, if it is not \<^verbatim>\<open>NULL\<close> and not
  the address of a live object, becomes a live object with the given contents; otherwise
  the call returns \<^verbatim>\<open>NULL\<close>.
\<close>

definition kmalloc :: "kernel \<Rightarrow> kobj \<Rightarrow> addr \<times> kernel" where
  "kmalloc k obj =
     (case kmalloc_plan k of
        [] \<Rightarrow> (0, k)
      | a # rest \<Rightarrow>
          if a = 0 \<or> slab k a \<noteq> None then (0, k\<lparr>kmalloc_plan := rest\<rparr>)
          else (a, k\<lparr>kmalloc_plan := rest, slab := (slab k)(a \<mapsto> obj)\<rparr>))"

text \<open>\<^verbatim>\<open>kfree\<close>: \<^verbatim>\<open>kfree(NULL)\<close> does nothing; any other object stops being live.\<close>

definition kfree :: "kernel \<Rightarrow> addr \<Rightarrow> kernel" where
  "kfree k a = (if a = 0 then k else k\<lparr>slab := (slab k)(a := None)\<rparr>)"

text \<open>\<^verbatim>\<open>alloc_page\<close>: the next planned page, or \<^verbatim>\<open>NULL\<close>.\<close>

definition alloc_page :: "kernel \<Rightarrow> page \<times> kernel" where
  "alloc_page k =
     (case page_plan k of
        [] \<Rightarrow> (0, k)
      | p # rest \<Rightarrow>
          if p = 0 then (0, k\<lparr>page_plan := rest\<rparr>)
          else (p, k\<lparr>page_plan := rest, pages_held := add_mset p (pages_held k)\<rparr>))"

definition free_page :: "kernel \<Rightarrow> page \<Rightarrow> kernel" where
  "free_page k p = k\<lparr>pages_held := pages_held k - {#p#}\<rparr>"

text \<open>
  \<open>page_list[i]\<close> as a load and as a store, for a \<^verbatim>\<open>struct page **\<close> that may point
  anywhere. A slot array answers with its slot; a zeroed block read as an array of
  4-byte pointers answers \<^verbatim>\<open>NULL\<close> as far as its bytes reach; everything else, \<^verbatim>\<open>NULL\<close>
  first, is a fault.
\<close>

definition load_slot :: "kernel \<Rightarrow> addr \<Rightarrow> nat \<Rightarrow> page option" where
  "load_slot k a i =
     (if a = 0 then None
      else
        (case slab k a of
           Some (PageArray ps) \<Rightarrow> if i < length ps then Some (ps ! i) else None
         | Some (ZeroBlock len) \<Rightarrow> if 4 * (i + 1) \<le> len then Some 0 else None
         | _ \<Rightarrow> None))"

definition store_slot :: "kernel \<Rightarrow> addr \<Rightarrow> nat \<Rightarrow> page \<Rightarrow> kernel option" where
  "store_slot k a i p =
     (if a = 0 then None
      else
        (case slab k a of
           Some (PageArray ps) \<Rightarrow>
             if i < length ps then Some (k\<lparr>slab := (slab k)(a \<mapsto> PageArray (ps[i := p]))\<rparr>)
             else None
         | _ \<Rightarrow> None))"

subsection \<open>The system heap: allocate and free\<close>

text \<open>
  The loop of \<^verbatim>\<open>ion_system_heap_allocate\<close>:
  \<^verbatim>\<open>for (i = 0; i < n_pages; i++) { page_list[i] = alloc_page(gfp_mask);
       if (page_list[i] == NULL) goto out; }\<close>
  It ends in a fault, in \<^verbatim>\<open>goto out\<close> with the index it failed on, or with every slot filled.
\<close>

datatype fill = Fill_fault | Fill_out nat kernel | Fill_done kernel

function alloc_pages :: "kernel \<Rightarrow> addr \<Rightarrow> nat \<Rightarrow> nat \<Rightarrow> fill" where
  "alloc_pages k page_list n_pages i =
     (if i < n_pages then
        (case alloc_page k of (p, k1) \<Rightarrow>
           (case store_slot k1 page_list i p of
              None \<Rightarrow> Fill_fault
            | Some k2 \<Rightarrow>
                (case load_slot k2 page_list i of
                   None \<Rightarrow> Fill_fault
                 | Some q \<Rightarrow>
                     if q = 0 then Fill_out i k2
                     else alloc_pages k2 page_list n_pages (i + 1))))
      else Fill_done k)"
  by pat_completeness auto
termination
  by (relation "measure (\<lambda>(k, page_list, n_pages, i). n_pages - i)") auto

declare alloc_pages.simps [simp del]

text \<open>
  The unwinding loop after \<^verbatim>\<open>out:\<close>, \<^verbatim>\<open>for (; i >= 0; i--) __free_page(page_list[i]);\<close>
  with its signed index.
\<close>

function free_pages_down :: "kernel \<Rightarrow> addr \<Rightarrow> int \<Rightarrow> kernel outcome" where
  "free_pages_down k page_list i =
     (if 0 \<le> i then
        (case load_slot k page_list (nat i) of
           None \<Rightarrow> Oops
         | Some p \<Rightarrow> free_pages_down (free_page k p) page_list (i - 1))
      else Done k)"
  by pat_completeness auto
termination
  by (relation "measure (\<lambda>(k, page_list, i). nat (i + 1))") auto

declare free_pages_down.simps [simp del]

text \<open>
  \<^verbatim>\<open>ion_system_heap_allocate\<close>. The result of \<^verbatim>\<open>kmalloc\<close> is not tested: the loop stores
  through it as it is. \<open>align\<close> and \<open>flags\<close> are not used by the code and are left out.
\<close>

definition ion_system_heap_allocate ::
  "kernel \<Rightarrow> ion_buffer \<Rightarrow> ulong \<Rightarrow> (int \<times> kernel \<times> ion_buffer) outcome" where
  "ion_system_heap_allocate k buffer sz =
     (let n_pages = n_pages_of sz in
      case kmalloc k (PageArray (replicate n_pages 0)) of (page_list, k1) \<Rightarrow>
        (case alloc_pages k1 page_list n_pages 0 of
           Fill_fault \<Rightarrow> Oops
         | Fill_done k2 \<Rightarrow> Done (0, k2, buffer\<lparr>priv_virt := page_list\<rparr>)
         | Fill_out i k2 \<Rightarrow>
             (case free_pages_down k2 page_list (int i - 1) of
                Oops \<Rightarrow> Oops
              | Done k3 \<Rightarrow> Done (- ENOMEM, kfree k3 page_list, buffer))))"

text \<open>
  \<^verbatim>\<open>ion_system_heap_free\<close>:
  \<^verbatim>\<open>for (i = 0; i < n_pages; i++) __free_page(page_list[i]); kfree(page_list);\<close>
\<close>

function free_pages_up :: "kernel \<Rightarrow> addr \<Rightarrow> nat \<Rightarrow> nat \<Rightarrow> kernel outcome" where
  "free_pages_up k page_list n_pages i =
     (if i < n_pages then
        (case load_slot k page_list i of
           None \<Rightarrow> Oops
         | Some p \<Rightarrow> free_pages_up (free_page k p) page_list n_pages (i + 1))
      else Done k)"
  by pat_completeness auto
termination
  by (relation "measure (\<lambda>(k, page_list, n_pages, i). n_pages - i)") auto

declare free_pages_up.simps [simp del]

definition ion_system_heap_free :: "kernel \<Rightarrow> ion_buffer \<Rightarrow> kernel outcome" where
  "ion_system_heap_free k buffer =
     (let n_pages = n_pages_of (size_buf buffer); page_list = priv_virt buffer in
      case free_pages_up k page_list n_pages 0 of
        Oops \<Rightarrow> Oops
      | Done k1 \<Rightarrow> Done (kfree k1 page_list))"

subsection \<open>The scatterlist library and the kernel page tables\<close>

text \<open>
  \<^verbatim>\<open>sg_alloc_table\<close>, \<^verbatim>\<open>sg_free_table\<close> and \<^verbatim>\<open>sg_set_page\<close> live in the scatterlist library,
  \<^verbatim>\<open>vmalloc_to_page\<close>, \<^verbatim>\<open>vm_map_ram\<close> and \<^verbatim>\<open>vm_unmap_ram\<close> in the memory manager; the file
  only calls them. They are modelled by what they do to the state above.

  \<^verbatim>\<open>sg_alloc_table(table, n, gfp)\<close> clears the structure and allocates an entry table of
  \<open>n\<close> cleared entries; when that allocation fails it returns \<^verbatim>\<open>-ENOMEM\<close> and holds
  nothing.
\<close>

definition sg_clear :: scatterlist where
  "sg_clear = \<lparr>sg_page = 0, sg_length = 0, sg_offset = 0\<rparr>"

definition table_at :: "kernel \<Rightarrow> addr \<Rightarrow> sg_table_struct option" where
  "table_at k table =
     (if table = 0 then None
      else (case slab k table of Some (SgTable t) \<Rightarrow> Some t | _ \<Rightarrow> None))"

definition sg_alloc_table :: "kernel \<Rightarrow> addr \<Rightarrow> nat \<Rightarrow> (int \<times> kernel) outcome" where
  "sg_alloc_table k table n =
     (case table_at k table of
        None \<Rightarrow> Oops
      | Some t \<Rightarrow>
          (case kmalloc k (SgEntries (replicate n sg_clear)) of (e, k1) \<Rightarrow>
             if e = 0 then
               Done (- ENOMEM, k1\<lparr>slab := (slab k1)(table \<mapsto> SgTable \<lparr>sgl = 0, nents = 0\<rparr>)\<rparr>)
             else
               Done (0, k1\<lparr>slab := (slab k1)(table \<mapsto> SgTable \<lparr>sgl = e, nents = n\<rparr>)\<rparr>)))"

text \<open>\<^verbatim>\<open>sg_free_table(table)\<close> releases the entry table and clears the pointer to it.\<close>

definition sg_free_table :: "kernel \<Rightarrow> addr \<Rightarrow> kernel outcome" where
  "sg_free_table k table =
     (case table_at k table of
        None \<Rightarrow> Oops
      | Some t \<Rightarrow>
          (let k1 = kfree k (sgl t)
           in Done (k1\<lparr>slab := (slab k1)(table \<mapsto> SgTable (t\<lparr>sgl := 0\<rparr>))\<rparr>)))"

text \<open>\<^verbatim>\<open>sg_set_page(sg, page, len, offset)\<close> on entry \<open>i\<close> of an entry table.\<close>

definition sg_set_page ::
  "kernel \<Rightarrow> addr \<Rightarrow> nat \<Rightarrow> page \<Rightarrow> ulong \<Rightarrow> ulong \<Rightarrow> kernel option" where
  "sg_set_page k entries i p len off =
     (if entries = 0 then None
      else
        (case slab k entries of
           Some (SgEntries es) \<Rightarrow>
             if i < length es then
               Some (k\<lparr>slab := (slab k)(entries \<mapsto>
                 SgEntries (es[i := \<lparr>sg_page = p, sg_length = len, sg_offset = off\<rparr>]))\<rparr>)
             else None
         | _ \<Rightarrow> None))"

text \<open>
  \<^verbatim>\<open>vmalloc_to_page(addr)\<close> walks the kernel page table: the page mapped at the address, or
  \<^verbatim>\<open>NULL\<close> when the table maps nothing there.
\<close>

definition vmalloc_to_page :: "kernel \<Rightarrow> addr \<Rightarrow> page" where
  "vmalloc_to_page k a =
     (case kpt k (a AND NOT (PAGE_SIZE - 1)) of None \<Rightarrow> 0 | Some p \<Rightarrow> p)"

text \<open>
  \<^verbatim>\<open>vm_map_ram(pages, count, node, prot)\<close> reads \<open>count\<close> page pointers from the array and
  maps them, in order, at consecutive page addresses from a base of its choice, which it
  returns. It returns \<^verbatim>\<open>NULL\<close>, mapping nothing, when no range is left or when one of the
  page pointers is \<^verbatim>\<open>NULL\<close>.
\<close>

fun load_slots :: "kernel \<Rightarrow> addr \<Rightarrow> nat \<Rightarrow> page list option" where
  "load_slots k a 0 = Some []"
| "load_slots k a (Suc n) =
     (case load_slots k a n of
        None \<Rightarrow> None
      | Some ps \<Rightarrow> (case load_slot k a n of None \<Rightarrow> None | Some p \<Rightarrow> Some (ps @ [p])))"

fun map_pages :: "(addr \<rightharpoonup> page) \<Rightarrow> addr \<Rightarrow> page list \<Rightarrow> (addr \<rightharpoonup> page)" where
  "map_pages pt base [] = pt"
| "map_pages pt base (p # ps) = map_pages (pt(base \<mapsto> p)) (base + PAGE_SIZE) ps"

definition vm_map_ram :: "kernel \<Rightarrow> addr \<Rightarrow> nat \<Rightarrow> (addr \<times> kernel) outcome" where
  "vm_map_ram k pages cnt =
     (case load_slots k pages cnt of
        None \<Rightarrow> Oops
      | Some ps \<Rightarrow>
          (case vmap_plan k of
             [] \<Rightarrow> Done (0, k)
           | base # rest \<Rightarrow>
               if base = 0 \<or> 0 \<in> set ps then Done (0, k\<lparr>vmap_plan := rest\<rparr>)
               else Done (base, k\<lparr>vmap_plan := rest, kpt := map_pages (kpt k) base ps\<rparr>)))"

fun unmap_pages :: "(addr \<rightharpoonup> page) \<Rightarrow> addr \<Rightarrow> nat \<Rightarrow> (addr \<rightharpoonup> page)" where
  "unmap_pages pt base 0 = pt"
| "unmap_pages pt base (Suc n) = unmap_pages (pt(base := None)) (base + PAGE_SIZE) n"

definition vm_unmap_ram :: "kernel \<Rightarrow> addr \<Rightarrow> nat \<Rightarrow> kernel" where
  "vm_unmap_ram k mem cnt = k\<lparr>kpt := unmap_pages (kpt k) mem cnt\<rparr>"

subsection \<open>The system heap: device and kernel mappings\<close>

text \<open>
  The loop of \<^verbatim>\<open>ion_system_heap_map_dma\<close>:
  \<^verbatim>\<open>for_each_sg(table->sgl, sg, table->nents, i) { page = vmalloc_to_page(vaddr);
       if (!page) { ret = -ENOMEM; goto err1; }
       sg_set_page(sg, page, PAGE_SIZE, 0); vaddr += PAGE_SIZE; }\<close>
  \<open>True\<close> when every entry was set, \<open>False\<close> for \<^verbatim>\<open>goto err1\<close>; \<open>va\<close> is the local
  \<^verbatim>\<open>vaddr\<close>.
\<close>

function sg_fill :: "kernel \<Rightarrow> addr \<Rightarrow> nat \<Rightarrow> nat \<Rightarrow> addr \<Rightarrow> (bool \<times> kernel) outcome" where
  "sg_fill k entries n i va =
     (if i < n then
        (let p = vmalloc_to_page k va in
         if p = 0 then Done (False, k)
         else
           (case sg_set_page k entries i p PAGE_SIZE 0 of
              None \<Rightarrow> Oops
            | Some k1 \<Rightarrow> sg_fill k1 entries n (i + 1) (va + PAGE_SIZE)))
      else Done (True, k))"
  by pat_completeness auto
termination
  by (relation "measure (\<lambda>(k, entries, n, i, va). n - i)") auto

declare sg_fill.simps [simp del]

text \<open>
  \<^verbatim>\<open>ion_system_heap_map_dma\<close>. \<open>Inl e\<close> is \<^verbatim>\<open>ERR_PTR(e)\<close>, \<open>Inr table\<close> the table. The
  address the loop starts from is \<^verbatim>\<open>buffer->priv_virt\<close> itself.
\<close>

definition ion_system_heap_map_dma ::
  "kernel \<Rightarrow> ion_buffer \<Rightarrow> ((int + addr) \<times> kernel) outcome" where
  "ion_system_heap_map_dma k buffer =
     (let npages = n_pages_of (size_buf buffer); va = priv_virt buffer in
      case kmalloc k (SgTable \<lparr>sgl = 0, nents = 0\<rparr>) of (table, k1) \<Rightarrow>
        if table = 0 then Done (Inl (- ENOMEM), k1)
        else
          (case sg_alloc_table k1 table npages of
             Oops \<Rightarrow> Oops
           | Done (ret, k2) \<Rightarrow>
               if ret \<noteq> 0 then Done (Inl ret, kfree k2 table)
               else
                 (case table_at k2 table of
                    None \<Rightarrow> Oops
                  | Some t \<Rightarrow>
                      (case sg_fill k2 (sgl t) (nents t) 0 va of
                         Oops \<Rightarrow> Oops
                       | Done (True, k3) \<Rightarrow> Done (Inr table, k3)
                       | Done (False, k3) \<Rightarrow>
                           (case sg_free_table k3 table of
                              Oops \<Rightarrow> Oops
                            | Done k4 \<Rightarrow> Done (Inl (- ENOMEM), kfree k4 table))))))"

text \<open>
  \<^verbatim>\<open>ion_system_heap_unmap_dma\<close>:
  \<^verbatim>\<open>if (buffer->sg_table) sg_free_table(buffer->sg_table); kfree(buffer->sg_table);\<close>
\<close>

definition ion_system_heap_unmap_dma :: "kernel \<Rightarrow> ion_buffer \<Rightarrow> kernel outcome" where
  "ion_system_heap_unmap_dma k buffer =
     (if sg_table buffer \<noteq> 0 then
        (case sg_free_table k (sg_table buffer) of
           Oops \<Rightarrow> Oops
         | Done k1 \<Rightarrow> Done (kfree k1 (sg_table buffer)))
      else Done (kfree k (sg_table buffer)))"

text \<open>\<^verbatim>\<open>ion_system_heap_map_kernel\<close> and \<^verbatim>\<open>ion_system_heap_unmap_kernel\<close>.\<close>

definition ion_system_heap_map_kernel :: "kernel \<Rightarrow> ion_buffer \<Rightarrow> (addr \<times> kernel) outcome" where
  "ion_system_heap_map_kernel k buffer =
     (let n_pages = n_pages_of (size_buf buffer); page_list = priv_virt buffer
      in vm_map_ram k page_list n_pages)"

definition ion_system_heap_unmap_kernel :: "kernel \<Rightarrow> ion_buffer \<Rightarrow> kernel" where
  "ion_system_heap_unmap_kernel k buffer =
     (let n_pages = n_pages_of (size_buf buffer) in vm_unmap_ram k (vaddr buffer) n_pages)"

subsection \<open>The system heap: mapping into a process\<close>

text \<open>
  \<^verbatim>\<open>struct vm_area_struct\<close>: the range, the flags, and, in place of the page table of the
  process, the record of every \<^verbatim>\<open>vm_insert_page\<close> call made on the area, in call order:
  the address, the page and the value the call returned (\<open>0\<close>: the page is now mapped
  at the address).
\<close>

record vm_area_struct =
  vm_start :: ulong
  vm_end :: ulong
  vm_flags :: ulong
  inserts :: "(addr \<times> page \<times> int) list"

text \<open>
  \<^verbatim>\<open>vm_insert_page(vma, addr, page)\<close> belongs to the memory manager. Whether a call
  succeeds is the memory manager's decision, the parameter \<open>rc\<close>: the value the call
  returns for this area, address and page.
\<close>

definition vm_insert_page ::
  "(vm_area_struct \<Rightarrow> addr \<Rightarrow> page \<Rightarrow> int) \<Rightarrow> vm_area_struct \<Rightarrow> addr \<Rightarrow> page
     \<Rightarrow> int \<times> vm_area_struct" where
  "vm_insert_page rc vma a p =
     (let ret = rc vma a p in (ret, vma\<lparr>inserts := inserts vma @ [(a, p, ret)]\<rparr>))"

text \<open>
  A memory manager for the examples below. It refuses an address outside the area with
  \<^verbatim>\<open>-EFAULT\<close> and an address that already has a page with \<^verbatim>\<open>-EBUSY\<close>, as \<^verbatim>\<open>vm_insert_page\<close>
  of this kernel does, and accepts every other call. The general properties hold for every
  \<open>rc\<close>.
\<close>

definition mm_insert_rc :: "vm_area_struct \<Rightarrow> addr \<Rightarrow> page \<Rightarrow> int" where
  "mm_insert_rc vma a p =
     (if a < vm_start vma \<or> vm_end vma \<le> a then - EFAULT
      else if (\<exists>(b, q, r) \<in> set (inserts vma). b = a \<and> r = 0) then - EBUSY
      else 0)"

text \<open>
  The flag \<^verbatim>\<open>VM_RESERVED\<close> comes from a header outside the file; \<open>0x00080000\<close> is its value
  in this kernel line. No property below depends on the value.
\<close>

definition VM_RESERVED :: ulong where
  "VM_RESERVED = 0x00080000"

text \<open>
  The loop of \<^verbatim>\<open>ion_system_heap_map_user\<close>:
  \<^verbatim>\<open>i = 0;
  do { ret = vm_insert_page(vma, uaddr, page_list[i]); if (ret) return ret;
       uaddr += PAGE_SIZE; usize -= PAGE_SIZE; } while (usize > 0);\<close>
  The body assigns to \<open>uaddr\<close> and \<open>usize\<close> only, so \<open>i\<close> goes round unchanged. Nothing in
  the loop bounds the number of rounds, so the loop is a partial function: \<open>None\<close> is a
  loop that never ends.
\<close>

partial_function (option) map_user_loop ::
  "(vm_area_struct \<Rightarrow> addr \<Rightarrow> page \<Rightarrow> int) \<Rightarrow> kernel \<Rightarrow> addr \<Rightarrow> nat \<Rightarrow> vm_area_struct
     \<Rightarrow> ulong \<Rightarrow> ulong \<Rightarrow> (int \<times> vm_area_struct) outcome option" where
  "map_user_loop rc k page_list i vma uaddr usize =
     (case load_slot k page_list i of
        None \<Rightarrow> Some Oops
      | Some p \<Rightarrow>
          (case vm_insert_page rc vma uaddr p of (ret, vma1) \<Rightarrow>
             if ret \<noteq> 0 then Some (Done (ret, vma1))
             else if usize - PAGE_SIZE > 0
               then map_user_loop rc k page_list i vma1 (uaddr + PAGE_SIZE) (usize - PAGE_SIZE)
               else Some (Done (0, vma1))))"

declare map_user_loop.simps [code]

text \<open>
  \<^verbatim>\<open>ion_system_heap_map_user\<close>. The bound \<^verbatim>\<open>n_pages << PAGE_SHIFT\<close> is computed in \<^verbatim>\<open>int\<close> and
  converted to \<^verbatim>\<open>unsigned long\<close> for the comparison: the same 32 bits.
\<close>

definition ion_system_heap_map_user ::
  "(vm_area_struct \<Rightarrow> addr \<Rightarrow> page \<Rightarrow> int) \<Rightarrow> kernel \<Rightarrow> ion_buffer \<Rightarrow> vm_area_struct
     \<Rightarrow> (int \<times> vm_area_struct) outcome option" where
  "ion_system_heap_map_user rc k buffer vma =
     (let uaddr = vm_start vma;
          usize = vm_end vma - vm_start vma;
          n_pages = n_pages_of (size_buf buffer);
          page_list = priv_virt buffer
      in if usize > push_bit PAGE_SHIFT (word_of_nat n_pages) then Some (Done (- EINVAL, vma))
         else
           (case map_user_loop rc k page_list 0 vma uaddr usize of
              None \<Rightarrow> None
            | Some Oops \<Rightarrow> Some Oops
            | Some (Done (ret, vma1)) \<Rightarrow>
                if ret \<noteq> 0 then Some (Done (ret, vma1))
                else Some (Done (0, vma1\<lparr>vm_flags := vm_flags vma1 OR VM_RESERVED\<rparr>))))"

subsection \<open>The system-contig heap\<close>

text \<open>
  \<^verbatim>\<open>ion_system_contig_heap_allocate\<close>: \<^verbatim>\<open>buffer->priv_virt = kzalloc(len, GFP_KERNEL)\<close>, a
  zeroed block of \<open>len\<close> bytes.
\<close>

definition ion_system_contig_heap_allocate ::
  "kernel \<Rightarrow> ion_buffer \<Rightarrow> ulong \<Rightarrow> (int \<times> kernel \<times> ion_buffer) outcome" where
  "ion_system_contig_heap_allocate k buffer len =
     (case kmalloc k (ZeroBlock (unat len)) of (p, k1) \<Rightarrow>
        if p = 0 then Done (- ENOMEM, k1, buffer\<lparr>priv_virt := p\<rparr>)
        else Done (0, k1, buffer\<lparr>priv_virt := p\<rparr>))"

definition ion_system_contig_heap_free :: "kernel \<Rightarrow> ion_buffer \<Rightarrow> kernel outcome" where
  "ion_system_contig_heap_free k buffer = Done (kfree k (priv_virt buffer))"

text \<open>
  \<^verbatim>\<open>ion_system_contig_heap_map_dma\<close>: one entry, the page of the block's base, the whole
  size.
\<close>

definition ion_system_contig_heap_map_dma ::
  "kernel \<Rightarrow> ion_buffer \<Rightarrow> ((int + addr) \<times> kernel) outcome" where
  "ion_system_contig_heap_map_dma k buffer =
     (case kmalloc k (SgTable \<lparr>sgl = 0, nents = 0\<rparr>) of (table, k1) \<Rightarrow>
        if table = 0 then Done (Inl (- ENOMEM), k1)
        else
          (case sg_alloc_table k1 table 1 of
             Oops \<Rightarrow> Oops
           | Done (ret, k2) \<Rightarrow>
               if ret \<noteq> 0 then Done (Inl ret, kfree k2 table)
               else
                 (case table_at k2 table of
                    None \<Rightarrow> Oops
                  | Some t \<Rightarrow>
                      (case sg_set_page k2 (sgl t) 0 (lowmem_page k2 (priv_virt buffer))
                              (size_buf buffer) 0 of
                         None \<Rightarrow> Oops
                       | Some k3 \<Rightarrow> Done (Inr table, k3)))))"

subsection \<open>The operation tables\<close>

text \<open>
  \<^verbatim>\<open>struct ion_heap_ops\<close>, with the operations that have the same shape in both heaps.
  \<^verbatim>\<open>vmalloc_ops\<close> is the table of the system heap, \<^verbatim>\<open>kmalloc_ops\<close> the table of the
  system-contig heap, which takes \<^verbatim>\<open>unmap_dma\<close>, \<^verbatim>\<open>map_kernel\<close> and \<^verbatim>\<open>unmap_kernel\<close> from the
  system heap.
\<close>

record ion_heap_ops =
  allocate :: "kernel \<Rightarrow> ion_buffer \<Rightarrow> ulong \<Rightarrow> (int \<times> kernel \<times> ion_buffer) outcome"
  free :: "kernel \<Rightarrow> ion_buffer \<Rightarrow> kernel outcome"
  map_dma :: "kernel \<Rightarrow> ion_buffer \<Rightarrow> ((int + addr) \<times> kernel) outcome"
  unmap_dma :: "kernel \<Rightarrow> ion_buffer \<Rightarrow> kernel outcome"
  map_kernel :: "kernel \<Rightarrow> ion_buffer \<Rightarrow> (addr \<times> kernel) outcome"
  unmap_kernel :: "kernel \<Rightarrow> ion_buffer \<Rightarrow> kernel"

definition vmalloc_ops :: ion_heap_ops where
  "vmalloc_ops =
     \<lparr>allocate = ion_system_heap_allocate,
      free = ion_system_heap_free,
      map_dma = ion_system_heap_map_dma,
      unmap_dma = ion_system_heap_unmap_dma,
      map_kernel = ion_system_heap_map_kernel,
      unmap_kernel = ion_system_heap_unmap_kernel\<rparr>"

definition kmalloc_ops :: ion_heap_ops where
  "kmalloc_ops =
     \<lparr>allocate = ion_system_contig_heap_allocate,
      free = ion_system_contig_heap_free,
      map_dma = ion_system_contig_heap_map_dma,
      unmap_dma = ion_system_heap_unmap_dma,
      map_kernel = ion_system_heap_map_kernel,
      unmap_kernel = ion_system_heap_unmap_kernel\<rparr>"

subsection \<open>Concrete states\<close>

text \<open>
  A kernel with nothing allocated, nothing mapped and empty plans, and a buffer as the
  caller hands it to \<^verbatim>\<open>allocate\<close>: the size set, every pointer \<^verbatim>\<open>NULL\<close>. The examples
  below start from them.
\<close>

definition idle_kernel :: kernel where
  "idle_kernel =
     \<lparr>kmalloc_plan = [], page_plan = [], vmap_plan = [], slab = Map.empty,
      pages_held = {#}, kpt = Map.empty, lowmem_page = (\<lambda>a. unat (drop_bit PAGE_SHIFT a))\<rparr>"

definition fresh_buffer :: "ulong \<Rightarrow> ion_buffer" where
  "fresh_buffer sz = \<lparr>size_buf = sz, priv_virt = 0, sg_table = 0, vaddr = 0\<rparr>"

section \<open>Properties\<close>

subsection \<open>Page counts\<close>

lemma PAGE_SIZE_val: "PAGE_SIZE = 4096"
  by (simp add: PAGE_SIZE_def PAGE_SHIFT_def)

lemma drop_bit_and_not_mask:
  fixes x :: ulong
  shows "drop_bit 12 (x AND NOT (mask 12)) = drop_bit 12 x"
  by (rule bit_eqI) (auto simp add: bit_simps dest: bit_imp_le_length)

lemma PAGE_ALIGN_mask: "PAGE_ALIGN sz = (sz + 4095) AND NOT (mask 12)"
  by (simp add: PAGE_ALIGN_def PAGE_SIZE_val mask_eq_exp_minus_1 add.commute)

lemma n_pages_of_drop: "n_pages_of sz = unat (sz + 4095) div 4096"
proof -
  have "PAGE_ALIGN sz div PAGE_SIZE = drop_bit 12 (PAGE_ALIGN sz)"
    by (simp add: PAGE_SIZE_val drop_bit_eq_div)
  also have "\<dots> = drop_bit 12 (sz + 4095)"
    unfolding PAGE_ALIGN_mask by (rule drop_bit_and_not_mask)
  finally have "PAGE_ALIGN sz div PAGE_SIZE = (sz + 4095) div 4096"
    by (simp add: drop_bit_eq_div)
  then show ?thesis
    by (simp add: n_pages_of_def unat_div)
qed

lemma n_pages_of_ceil:
  assumes "unat sz \<le> 2 ^ 32 - 4096"
  shows "n_pages_of sz = page_count (unat sz)"
proof -
  have "unat (sz + 4095) = unat sz + 4095"
    using assms by (simp add: unat_word_ariths)
  then show ?thesis by (simp add: n_pages_of_drop page_count_def)
qed

lemma n_pages_of_wrap:
  assumes "2 ^ 32 - 4096 < unat sz"
  shows "n_pages_of sz = 0"
proof -
  have less: "unat sz < 2 ^ 32" using unsigned_less [of sz] by simp
  have "unat (sz + 4095) = (unat sz + 4095) mod 2 ^ 32"
    by (simp add: unat_word_ariths)
  also have "\<dots> = unat sz + 4095 - 2 ^ 32"
    using assms less by (simp add: mod_if)
  finally have "unat (sz + 4095) < 4096" using less by simp
  then show ?thesis by (simp add: n_pages_of_drop)
qed

lemma n_pages_of_less: "n_pages_of sz < 2 ^ 20"
proof -
  have "unat (sz + 4095) < 2 ^ 32" using unsigned_less [of "sz + 4095"] by simp
  then show ?thesis by (simp add: n_pages_of_drop)
qed

lemma n_pages_shift:
  "unat (push_bit PAGE_SHIFT (word_of_nat (n_pages_of sz) :: ulong)) = n_pages_of sz * 4096"
proof -
  have "n_pages_of sz * 4096 < 2 ^ 32" using n_pages_of_less [of sz] by simp
  then show ?thesis
    by (simp add: PAGE_SHIFT_def push_bit_eq_mult unat_word_ariths unat_of_nat take_bit_eq_mod)
qed

subsection \<open>The loops over the slot array\<close>

text \<open>
  The unwinding loop started at \<open>j - 1\<close> gives back the pages of slots \<open>j - 1\<close> down to
  \<open>0\<close>; started at \<open>-1\<close> it does nothing.
\<close>

lemma free_pages_down_slab:
  assumes "a \<noteq> 0" "slab k a = Some (PageArray ys)" "j \<le> length ys"
  shows "free_pages_down k a (int j - 1) =
    Done (k\<lparr>pages_held := pages_held k - mset (take j ys)\<rparr>)"
  using assms
proof (induction j arbitrary: k)
  case 0
  then show ?case by (simp add: free_pages_down.simps)
next
  case (Suc j)
  have ld: "load_slot k a j = Some (ys ! j)"
    using Suc.prems by (simp add: load_slot_def)
  have sl: "slab (free_page k (ys ! j)) a = Some (PageArray ys)"
    using Suc.prems by (simp add: free_page_def)
  have "free_pages_down k a (int (Suc j) - 1) =
      free_pages_down (free_page k (ys ! j)) a (int j - 1)"
    by (subst free_pages_down.simps) (simp add: ld)
  also have "\<dots> = Done ((free_page k (ys ! j))\<lparr>pages_held :=
      pages_held (free_page k (ys ! j)) - mset (take j ys)\<rparr>)"
    using Suc.IH [OF Suc.prems(1) sl] Suc.prems(3) by simp
  also have "\<dots> = Done (k\<lparr>pages_held := pages_held k - mset (take (Suc j) ys)\<rparr>)"
    using Suc.prems(3) by (simp add: free_page_def take_Suc_conv_app_nth)
  finally show ?case .
qed

text \<open>
  The filling loop on a plan whose next pages \<open>ps\<close> are good and whose page after them is
  not there (\<^verbatim>\<open>NULL\<close>, or the plan is over): it leaves through \<^verbatim>\<open>goto out\<close> at index
  \<open>i + length ps\<close>, the slots from \<open>i\<close> on holding \<open>ps\<close> and then \<^verbatim>\<open>NULL\<close>.
\<close>

lemma alloc_pages_fails:
  assumes "a \<noteq> 0" "slab k a = Some (PageArray xs)" "page_plan k = ps @ r"
    "r = [] \<or> hd r = 0" "0 \<notin> set ps" "i + length ps < n" "n \<le> length xs"
  shows "alloc_pages k a n i =
    Fill_out (i + length ps)
      (k\<lparr>page_plan := tl r, pages_held := pages_held k + mset ps,
         slab := (slab k)(a \<mapsto> PageArray (take i xs @ ps @ 0 # drop (Suc (i + length ps)) xs))\<rparr>)"
  using assms
proof (induction ps arbitrary: k i xs)
  case Nil
  have eq: "take i xs @ 0 # drop (Suc i) xs = xs[i := 0]"
    using Nil by (simp add: upd_conv_take_nth_drop)
  from Nil show ?case
    by (subst alloc_pages.simps)
      (auto simp add: alloc_page_def store_slot_def load_slot_def eq split: list.splits)
next
  case (Cons p ps)
  define k2 where "k2 = k\<lparr>page_plan := ps @ r, pages_held := add_mset p (pages_held k),
      slab := (slab k)(a \<mapsto> PageArray (xs[i := p]))\<rparr>"
  have p: "p \<noteq> 0" using Cons.prems by auto
  have i: "i < length xs" "i < n" using Cons.prems by auto
  have step: "alloc_pages k a n i = alloc_pages k2 a n (i + 1)"
    using Cons.prems p i
    by (subst alloc_pages.simps) (simp add: alloc_page_def store_slot_def load_slot_def k2_def)
  have "alloc_pages k2 a n (i + 1) = Fill_out (i + 1 + length ps)
      (k2\<lparr>page_plan := tl r, pages_held := pages_held k2 + mset ps,
         slab := (slab k2)(a \<mapsto> PageArray (take (i + 1) (xs[i := p]) @ ps @
           0 # drop (Suc (i + 1 + length ps)) (xs[i := p])))\<rparr>)"
    using Cons.prems by (intro Cons.IH) (auto simp: k2_def)
  also have "\<dots> = Fill_out (i + length (p # ps))
      (k\<lparr>page_plan := tl r, pages_held := pages_held k + mset (p # ps),
         slab := (slab k)(a \<mapsto> PageArray (take i xs @ (p # ps) @
           0 # drop (Suc (i + length (p # ps))) xs))\<rparr>)"
    using i by (simp add: k2_def take_Suc_conv_app_nth)
  finally show ?case unfolding step .
qed

subsection \<open>Unwinding of a failed page acquisition\<close>

text \<open>
  \<^verbatim>\<open>ion_system_heap_allocate\<close> when the slot array is obtained at \<open>a\<close> and the page source
  gives the pages \<open>ps\<close>, fewer than the size needs, and then fails: the loop leaves at
  index \<open>length ps\<close>, the unwinding gives back \<open>ps\<close> and the slot array.
\<close>

lemma allocate_unwinds:
  assumes "kmalloc_plan k = a # as" and "a \<noteq> 0" and "slab k a = None"
    and "page_plan k = ps @ r" and "r = [] \<or> hd r = 0" and "0 \<notin> set ps"
    and "length ps < n_pages_of sz"
  shows "ion_system_heap_allocate k buffer sz =
    Done (- ENOMEM, k\<lparr>kmalloc_plan := as, page_plan := tl r\<rparr>, buffer)"
proof -
  define n where "n = n_pages_of sz"
  define k1 where
    "k1 = k\<lparr>kmalloc_plan := as, slab := (slab k)(a \<mapsto> PageArray (replicate n 0))\<rparr>"
  define ys where "ys = ps @ 0 # drop (Suc (length ps)) (replicate n (0::nat))"
  define k2 where "k2 = k1\<lparr>page_plan := tl r, pages_held := pages_held k1 + mset ps,
      slab := (slab k1)(a \<mapsto> PageArray ys)\<rparr>"
  have km: "kmalloc k (PageArray (replicate n 0)) = (a, k1)"
    using assms by (simp add: kmalloc_def k1_def)
  have "alloc_pages k1 a n 0 = Fill_out (0 + length ps)
      (k1\<lparr>page_plan := tl r, pages_held := pages_held k1 + mset ps,
         slab := (slab k1)(a \<mapsto> PageArray (take 0 (replicate n 0) @ ps @
           0 # drop (Suc (0 + length ps)) (replicate n 0)))\<rparr>)"
    using assms by (intro alloc_pages_fails) (auto simp: k1_def n_def)
  then have fill: "alloc_pages k1 a n 0 = Fill_out (length ps) k2"
    by (simp add: k2_def ys_def)
  have "free_pages_down k2 a (int (length ps) - 1) =
      Done (k2\<lparr>pages_held := pages_held k2 - mset (take (length ps) ys)\<rparr>)"
    using assms(2) by (intro free_pages_down_slab) (auto simp: k2_def ys_def)
  then have down:
    "free_pages_down k2 a (int (length ps) - 1) = Done (k2\<lparr>pages_held := pages_held k\<rparr>)"
    by (simp add: k2_def k1_def ys_def)
  have "kfree (k2\<lparr>pages_held := pages_held k\<rparr>) a = k\<lparr>kmalloc_plan := as, page_plan := tl r\<rparr>"
    using assms(2,3) by (simp add: kfree_def k2_def k1_def fun_upd_idem)
  with km fill down show ?thesis
    by (simp add: ion_system_heap_allocate_def n_def [symmetric])
qed

text \<open>
  Claim C2. Let the slot array be obtained (the next planned slab address \<open>a\<close> is a fresh
  non-\<^verbatim>\<open>NULL\<close> address) and let page acquisition fail at index \<open>i = length ps\<close>, below the
  page count of the size: the page source hands out the pages \<open>ps\<close> and then fails. Then
  \<^verbatim>\<open>ion_system_heap_allocate\<close> returns \<^verbatim>\<open>-ENOMEM\<close>, the buffer is the one it was given, and the
  kernel is the one it started from but for the answers used up: the same live slab
  objects (the slot array is released) and the same pages held (pages \<open>0..i-1\<close> are
  released, none is kept).
\<close>

theorem allocate_page_failure_unwinds:
  assumes "kmalloc_plan k = a # as" and "a \<noteq> 0" and "slab k a = None"
    and "page_plan k = ps @ r" and "r = [] \<or> hd r = 0" and "0 \<notin> set ps"
    and "length ps < n_pages_of sz"
  shows "ion_system_heap_allocate k buffer sz =
    Done (- ENOMEM, k\<lparr>kmalloc_plan := as, page_plan := tl r\<rparr>, buffer)"
  using assms by (rule allocate_unwinds)

text \<open>
  Three pages asked for, the third acquisition fails: the two pages and the slot array
  are given back.
\<close>

theorem allocate_page_failure_unwinds_witness:
  "ion_system_heap_allocate
     (idle_kernel\<lparr>kmalloc_plan := [0xC0001000], page_plan := [5, 6, 0, 7]\<rparr>)
     (fresh_buffer 12288) 12288 =
   Done (- ENOMEM, idle_kernel\<lparr>kmalloc_plan := [], page_plan := [7]\<rparr>, fresh_buffer 12288)"
  using allocate_page_failure_unwinds
    [of "idle_kernel\<lparr>kmalloc_plan := [0xC0001000], page_plan := [5, 6, 0, 7]\<rparr>"
        "0xC0001000" "[]" "[5, 6]" "[0, 7]" 12288 "fresh_buffer 12288"]
  by (simp add: idle_kernel_def n_pages_of_drop)

subsection \<open>A failed acquisition of the slot array\<close>

text \<open>
  \<^verbatim>\<open>ion_system_heap_allocate\<close> when \<^verbatim>\<open>kmalloc\<close> returns \<^verbatim>\<open>NULL\<close> and the size needs at least
  one page: the first store of the loop goes through \<^verbatim>\<open>NULL\<close>.
\<close>

lemma allocate_null_faults:
  assumes "fst (kmalloc k (PageArray (replicate (n_pages_of sz) 0))) = 0"
    and "0 < n_pages_of sz"
  shows "ion_system_heap_allocate k buffer sz = Oops"
proof -
  obtain k1 where km: "kmalloc k (PageArray (replicate (n_pages_of sz) 0)) = (0, k1)"
    using assms(1) by (cases "kmalloc k (PageArray (replicate (n_pages_of sz) 0))") simp
  have "alloc_pages k1 0 (n_pages_of sz) 0 = Fill_fault"
    using assms(2)
    by (subst alloc_pages.simps) (simp add: store_slot_def split: prod.splits)
  with km show ?thesis
    by (simp add: ion_system_heap_allocate_def)
qed

text \<open>
  Claim C5 says that a failed acquisition of the slot array is an out-of-memory error
  returned to the caller. The code does not test what \<^verbatim>\<open>kmalloc\<close> returned: whenever the
  size needs at least one page and \<^verbatim>\<open>kmalloc\<close> returns \<^verbatim>\<open>NULL\<close>, the first round of the loop
  stores through \<^verbatim>\<open>NULL\<close> and the call ends in a kernel fault.
\<close>

theorem allocate_slot_array_failure_faults:
  assumes "fst (kmalloc k (PageArray (replicate (n_pages_of sz) 0))) = 0"
    and "0 < n_pages_of sz"
  shows "ion_system_heap_allocate k buffer sz = Oops"
  using assms by (rule allocate_null_faults)

text \<open>One page asked for, \<^verbatim>\<open>kmalloc\<close> fails, a page would have been available.\<close>

theorem allocate_slot_array_failure_faults_witness:
  "ion_system_heap_allocate (idle_kernel\<lparr>kmalloc_plan := [0], page_plan := [5]\<rparr>)
     (fresh_buffer 4096) 4096 = Oops"
  using allocate_slot_array_failure_faults
    [of "idle_kernel\<lparr>kmalloc_plan := [0], page_plan := [5]\<rparr>" 4096 "fresh_buffer 4096"]
  by (simp add: idle_kernel_def n_pages_of_drop kmalloc_def)

subsection \<open>What a successful allocation holds\<close>

text \<open>
  The filling loop on a plan whose next pages \<open>ps\<close> are good and fill the slots from \<open>i\<close>
  to the end: every slot is filled, in plan order.
\<close>

lemma alloc_pages_succeeds:
  assumes "a \<noteq> 0" "slab k a = Some (PageArray xs)" "page_plan k = ps @ rest" "0 \<notin> set ps"
    "i + length ps = n" "n \<le> length xs"
  shows "alloc_pages k a n i =
    Fill_done
      (k\<lparr>page_plan := rest, pages_held := pages_held k + mset ps,
         slab := (slab k)(a \<mapsto> PageArray (take i xs @ ps @ drop n xs))\<rparr>)"
  using assms
proof (induction ps arbitrary: k i xs)
  case Nil
  have "k\<lparr>page_plan := page_plan k, slab := (slab k)(a \<mapsto> PageArray xs)\<rparr> = k"
    using Nil.prems(2) by (simp add: fun_upd_idem)
  with Nil show ?case
    by (subst alloc_pages.simps) simp
next
  case (Cons p ps)
  define k2 where "k2 = k\<lparr>page_plan := ps @ rest, pages_held := add_mset p (pages_held k),
      slab := (slab k)(a \<mapsto> PageArray (xs[i := p]))\<rparr>"
  have p: "p \<noteq> 0" using Cons.prems by auto
  have i: "i < length xs" "i < n" using Cons.prems by auto
  have step: "alloc_pages k a n i = alloc_pages k2 a n (i + 1)"
    using Cons.prems p i
    by (subst alloc_pages.simps) (simp add: alloc_page_def store_slot_def load_slot_def k2_def)
  have "alloc_pages k2 a n (i + 1) = Fill_done
      (k2\<lparr>page_plan := rest, pages_held := pages_held k2 + mset ps,
         slab := (slab k2)(a \<mapsto> PageArray (take (i + 1) (xs[i := p]) @ ps @ drop n (xs[i := p])))\<rparr>)"
    using Cons.prems by (intro Cons.IH) (auto simp: k2_def)
  also have "\<dots> = Fill_done
      (k\<lparr>page_plan := rest, pages_held := pages_held k + mset (p # ps),
         slab := (slab k)(a \<mapsto> PageArray (take i xs @ (p # ps) @ drop n xs))\<rparr>)"
    using i by (simp add: k2_def take_Suc_conv_app_nth)
  finally show ?case unfolding step .
qed

text \<open>
  So a call that obtains the slot array and then \<open>n_pages\<close> good pages returns \<open>0\<close>, the
  buffer pointing to the filled slot array.
\<close>

lemma allocate_succeeds:
  assumes "kmalloc_plan k = a # as" and "a \<noteq> 0" and "slab k a = None"
    and "page_plan k = ps @ rest" and "0 \<notin> set ps" and "length ps = n_pages_of sz"
  shows "ion_system_heap_allocate k buffer sz =
    Done (0, k\<lparr>kmalloc_plan := as, page_plan := rest, pages_held := pages_held k + mset ps,
      slab := (slab k)(a \<mapsto> PageArray ps)\<rparr>, buffer\<lparr>priv_virt := a\<rparr>)"
proof -
  define n where "n = n_pages_of sz"
  define k1 where
    "k1 = k\<lparr>kmalloc_plan := as, slab := (slab k)(a \<mapsto> PageArray (replicate n 0))\<rparr>"
  have km: "kmalloc k (PageArray (replicate n 0)) = (a, k1)"
    using assms by (simp add: kmalloc_def k1_def)
  have "alloc_pages k1 a n 0 = Fill_done
      (k1\<lparr>page_plan := rest, pages_held := pages_held k1 + mset ps,
         slab := (slab k1)(a \<mapsto> PageArray (take 0 (replicate n 0) @ ps @
           drop n (replicate n 0)))\<rparr>)"
    using assms by (intro alloc_pages_succeeds) (auto simp: k1_def n_def)
  with km show ?thesis
    by (simp add: ion_system_heap_allocate_def n_def [symmetric] k1_def)
qed





subsection \<open>Mapping into a process\<close>

text \<open>
  Claim C6. When the length of the destination range exceeds \<open>n * PAGE_SIZE\<close>, with
  \<open>n = ceil(size / PAGE_SIZE)\<close>, \<^verbatim>\<open>ion_system_heap_map_user\<close> returns \<^verbatim>\<open>-EINVAL\<close> and the area
  is as it was: no \<^verbatim>\<open>vm_insert_page\<close> call was made, whatever the memory manager would
  have answered.
\<close>

theorem map_user_range_too_long:
  assumes "page_count (unat (size_buf buffer)) * 4096 < unat (vm_end vma - vm_start vma)"
  shows "ion_system_heap_map_user rc k buffer vma = Some (Done (- EINVAL, vma))"
proof -
  have "unat (vm_end vma - vm_start vma) < 2 ^ 32"
    using unsigned_less [of "vm_end vma - vm_start vma"] by simp
  with assms have "page_count (unat (size_buf buffer)) < 2 ^ 20" by simp
  then have "unat (size_buf buffer) \<le> 2 ^ 32 - 4096"
    by (simp add: page_count_def)
  then have "n_pages_of (size_buf buffer) = page_count (unat (size_buf buffer))"
    by (rule n_pages_of_ceil)
  with assms have "n_pages_of (size_buf buffer) * 4096 < unat (vm_end vma - vm_start vma)"
    by simp
  then have "push_bit PAGE_SHIFT (word_of_nat (n_pages_of (size_buf buffer))) <
      vm_end vma - vm_start vma"
    unfolding word_less_nat_alt n_pages_shift .
  then show ?thesis
    by (simp add: ion_system_heap_map_user_def)
qed

text \<open>
  A buffer of one page and a range of two.
\<close>

theorem map_user_range_too_long_witness:
  "ion_system_heap_map_user mm_insert_rc
     (idle_kernel\<lparr>slab := [0xC0001000 \<mapsto> PageArray [5]]\<rparr>)
     \<lparr>size_buf = 4096, priv_virt = 0xC0001000, sg_table = 0, vaddr = 0\<rparr>
     \<lparr>vm_start = 0x40000000, vm_end = 0x40002000, vm_flags = 0, inserts = []\<rparr> =
   Some (Done (- EINVAL,
     \<lparr>vm_start = 0x40000000, vm_end = 0x40002000, vm_flags = 0, inserts = []\<rparr>))"
  using map_user_range_too_long
    [of "\<lparr>size_buf = 4096, priv_virt = 0xC0001000, sg_table = 0, vaddr = 0\<rparr>"
        "\<lparr>vm_start = 0x40000000, vm_end = 0x40002000, vm_flags = 0, inserts = []\<rparr>"
        mm_insert_rc "idle_kernel\<lparr>slab := [0xC0001000 \<mapsto> PageArray [5]]\<rparr>"]
  by (simp add: page_count_def)

text \<open>
  Claim C1 says that the page inserted at offset \<open>k * PAGE_SIZE\<close> is backing page \<open>k\<close>.
  The loop never advances \<open>i\<close>: for a buffer backed by the pages \<open>5\<close> and \<open>6\<close> and a range
  of two pages, the call succeeds having inserted page \<open>5\<close> at both addresses; page \<open>6\<close>
  is not mapped.
\<close>

theorem map_user_repeats_first_page:
  "ion_system_heap_map_user mm_insert_rc
     (idle_kernel\<lparr>slab := [0xC0001000 \<mapsto> PageArray [5, 6]]\<rparr>)
     \<lparr>size_buf = 8192, priv_virt = 0xC0001000, sg_table = 0, vaddr = 0\<rparr>
     \<lparr>vm_start = 0x40000000, vm_end = 0x40002000, vm_flags = 0, inserts = []\<rparr> =
   Some (Done (0, \<lparr>vm_start = 0x40000000, vm_end = 0x40002000, vm_flags = VM_RESERVED,
     inserts = [(0x40000000, 5, 0), (0x40001000, 5, 0)]\<rparr>))"
  by (simp add: ion_system_heap_map_user_def map_user_loop.simps vm_insert_page_def
      mm_insert_rc_def load_slot_def idle_kernel_def n_pages_of_drop PAGE_SHIFT_def PAGE_SIZE_val)

text \<open>
  Claim C10 says that the body of the loop runs before the remaining length is tested,
  that a length which is not a multiple of the page size makes the counter wrap past
  zero, and that the wrapped counter drives the loop to index the slot array out of
  bounds. The first two hold: on a range of length zero one insertion is attempted (and
  refused by the memory manager), and on a range of one byte, for a buffer of one page,
  the loop goes round a second time, past the requested length. But \<open>i\<close> is never
  advanced, the defect of claim C1: both rounds read slot \<open>0\<close>, inside the array, and the
  call returns the memory manager's \<^verbatim>\<open>-EFAULT\<close> for the address after the range.
\<close>

theorem map_user_wrap_reads_first_slot:
  "ion_system_heap_map_user mm_insert_rc
     (idle_kernel\<lparr>slab := [0xC0001000 \<mapsto> PageArray [5]]\<rparr>)
     \<lparr>size_buf = 4096, priv_virt = 0xC0001000, sg_table = 0, vaddr = 0\<rparr>
     \<lparr>vm_start = 0x40000000, vm_end = 0x40000000, vm_flags = 0, inserts = []\<rparr> =
   Some (Done (- EFAULT, \<lparr>vm_start = 0x40000000, vm_end = 0x40000000, vm_flags = 0,
     inserts = [(0x40000000, 5, - EFAULT)]\<rparr>)) \<and>
   ion_system_heap_map_user mm_insert_rc
     (idle_kernel\<lparr>slab := [0xC0001000 \<mapsto> PageArray [5]]\<rparr>)
     \<lparr>size_buf = 4096, priv_virt = 0xC0001000, sg_table = 0, vaddr = 0\<rparr>
     \<lparr>vm_start = 0x40000000, vm_end = 0x40000001, vm_flags = 0, inserts = []\<rparr> =
   Some (Done (- EFAULT, \<lparr>vm_start = 0x40000000, vm_end = 0x40000001, vm_flags = 0,
     inserts = [(0x40000000, 5, 0), (0x40001000, 5, - EFAULT)]\<rparr>))"
  by (simp add: ion_system_heap_map_user_def map_user_loop.simps vm_insert_page_def
      mm_insert_rc_def load_slot_def idle_kernel_def n_pages_of_drop PAGE_SHIFT_def PAGE_SIZE_val
      word_gt_0)

subsection \<open>Device mappings\<close>

text \<open>
  A slab allocation returns \<^verbatim>\<open>NULL\<close> and changes nothing but the plan, or returns a fresh
  address that now holds the object.
\<close>

lemma kmalloc_cases:
  assumes "kmalloc k obj = (a, k1)"
  shows "(a = 0 \<and> k1 = k\<lparr>kmalloc_plan := kmalloc_plan k1\<rparr>) \<or>
    (a \<noteq> 0 \<and> slab k a = None \<and>
      k1 = k\<lparr>kmalloc_plan := kmalloc_plan k1, slab := (slab k)(a \<mapsto> obj)\<rparr>)"
  using assms by (auto simp: kmalloc_def split: list.splits if_splits)

text \<open>
  The loop of \<^verbatim>\<open>ion_system_heap_map_dma\<close> on a live entry table with room for \<open>n\<close> entries
  never faults and changes nothing but that entry table.
\<close>

lemma sg_fill_shape:
  assumes "e \<noteq> 0" "slab k e = Some (SgEntries es)" "n \<le> length es"
  shows "\<exists>bv es'. sg_fill k e n i va = Done (bv, k\<lparr>slab := (slab k)(e \<mapsto> SgEntries es')\<rparr>)"
  using assms
proof (induction "n - i" arbitrary: k es i va)
  case 0
  then have "k\<lparr>slab := (slab k)(e \<mapsto> SgEntries es)\<rparr> = k"
    by (simp add: fun_upd_idem)
  moreover from 0 have "sg_fill k e n i va = Done (True, k)"
    by (subst sg_fill.simps) simp
  ultimately show ?case by metis
next
  case (Suc d)
  have idle: "k\<lparr>slab := (slab k)(e \<mapsto> SgEntries es)\<rparr> = k"
    using Suc.prems by (simp add: fun_upd_idem)
  have i: "i < n" "i < length es" using Suc by auto
  show ?case
  proof (cases "vmalloc_to_page k va = 0")
    case True
    with i have "sg_fill k e n i va = Done (False, k)"
      by (subst sg_fill.simps) simp
    with idle show ?thesis by metis
  next
    case False
    define es1 where
      "es1 = es[i := \<lparr>sg_page = vmalloc_to_page k va, sg_length = PAGE_SIZE, sg_offset = 0\<rparr>]"
    define k1 where "k1 = k\<lparr>slab := (slab k)(e \<mapsto> SgEntries es1)\<rparr>"
    have step: "sg_fill k e n i va = sg_fill k1 e n (i + 1) (va + PAGE_SIZE)"
      using False i Suc.prems
      by (subst sg_fill.simps) (simp add: sg_set_page_def k1_def es1_def)
    have "\<exists>bv es'. sg_fill k1 e n (i + 1) (va + PAGE_SIZE) =
        Done (bv, k1\<lparr>slab := (slab k1)(e \<mapsto> SgEntries es')\<rparr>)"
      using Suc.hyps(2) Suc.prems i
      by (intro Suc.hyps(1) [where es = es1]) (auto simp: k1_def es1_def)
    then show ?thesis
      unfolding step by (simp add: k1_def)
  qed
qed

text \<open>
  The first step fails: the description structure is not obtained.
\<close>

lemma map_dma_null_table:
  assumes "kmalloc k (SgTable \<lparr>sgl = 0, nents = 0\<rparr>) = (0, k1)"
  shows "ion_system_heap_map_dma k buffer = Done (Inl (- ENOMEM), k1)"
    and "ion_system_contig_heap_map_dma k buffer = Done (Inl (- ENOMEM), k1)"
  using assms
  by (simp_all add: ion_system_heap_map_dma_def ion_system_contig_heap_map_dma_def)

text \<open>
  \<^verbatim>\<open>sg_alloc_table\<close> on a description structure just obtained at \<open>t\<close>: when the entry table
  is not obtained, releasing the structure leaves the slab as it was before the call; when
  it is obtained, it is a second fresh object.
\<close>

lemma sg_alloc_table_null:
  assumes "t \<noteq> 0" "slab k t = None"
    and "k1 = k\<lparr>kmalloc_plan := pl1, slab := (slab k)(t \<mapsto> SgTable \<lparr>sgl = 0, nents = 0\<rparr>)\<rparr>"
    and "kmalloc k1 (SgEntries (replicate n sg_clear)) = (0, k2)"
  shows "sg_alloc_table k1 t n = Done (- ENOMEM, k2)"
    and "kfree k2 t = k\<lparr>kmalloc_plan := kmalloc_plan k2\<rparr>"
proof -
  from kmalloc_cases [OF assms(4)]
  have k2: "k2 = k1\<lparr>kmalloc_plan := kmalloc_plan k2\<rparr>" by simp
  have tab: "table_at k1 t = Some \<lparr>sgl = 0, nents = 0\<rparr>"
    using assms(1) by (simp add: table_at_def assms(3))
  have "k2\<lparr>slab := (slab k2)(t \<mapsto> SgTable \<lparr>sgl = 0, nents = 0\<rparr>)\<rparr> = k2"
    by (subst (1 2 3) k2) (simp add: assms(3))
  with tab assms(4) show "sg_alloc_table k1 t n = Done (- ENOMEM, k2)"
    by (simp add: sg_alloc_table_def)
  show "kfree k2 t = k\<lparr>kmalloc_plan := kmalloc_plan k2\<rparr>"
    using assms(1,2)
    by (subst (1) k2) (simp add: kfree_def assms(3) fun_upd_idem)
qed

lemma sg_alloc_table_ok:
  assumes "t \<noteq> 0" "slab k t = None"
    and "k1 = k\<lparr>kmalloc_plan := pl1, slab := (slab k)(t \<mapsto> SgTable \<lparr>sgl = 0, nents = 0\<rparr>)\<rparr>"
    and "kmalloc k1 (SgEntries (replicate n sg_clear)) = (e, k2)" and "e \<noteq> 0"
  shows "e \<noteq> t" and "slab k e = None"
    and "sg_alloc_table k1 t n = Done (0,
      k\<lparr>kmalloc_plan := kmalloc_plan k2,
        slab := (slab k)(e \<mapsto> SgEntries (replicate n sg_clear),
          t \<mapsto> SgTable \<lparr>sgl = e, nents = n\<rparr>)\<rparr>)"
proof -
  from kmalloc_cases [OF assms(4)] assms(5)
  have fresh: "slab k1 e = None"
    and k2: "k2 = k1\<lparr>kmalloc_plan := kmalloc_plan k2,
      slab := (slab k1)(e \<mapsto> SgEntries (replicate n sg_clear))\<rparr>"
    by simp_all
  from fresh show et: "e \<noteq> t" by (auto simp: assms(3))
  with fresh show "slab k e = None" by (simp add: assms(3))
  have tab: "table_at k1 t = Some \<lparr>sgl = 0, nents = 0\<rparr>"
    using assms(1) by (simp add: table_at_def assms(3))
  have "k2\<lparr>slab := (slab k2)(t \<mapsto> SgTable \<lparr>sgl = e, nents = n\<rparr>)\<rparr> =
      k\<lparr>kmalloc_plan := kmalloc_plan k2,
        slab := (slab k)(e \<mapsto> SgEntries (replicate n sg_clear),
          t \<mapsto> SgTable \<lparr>sgl = e, nents = n\<rparr>)\<rparr>"
    using et by (subst (1 2) k2) (simp add: assms(3) fun_upd_twist)
  with tab assms(4,5) show "sg_alloc_table k1 t n = Done (0,
      k\<lparr>kmalloc_plan := kmalloc_plan k2,
        slab := (slab k)(e \<mapsto> SgEntries (replicate n sg_clear),
          t \<mapsto> SgTable \<lparr>sgl = e, nents = n\<rparr>)\<rparr>)"
    by (simp add: sg_alloc_table_def)
qed

text \<open>
  Every call of \<^verbatim>\<open>map_dma\<close>, of either heap, returns; and when it returns an error, the
  error is \<^verbatim>\<open>-ENOMEM\<close> and the kernel differs from the one before the call in the used-up
  plan only.
\<close>

lemma system_map_dma_outcome:
  "\<exists>r k'. ion_system_heap_map_dma k buffer = Done (r, k') \<and>
     (\<forall>e. r = Inl e \<longrightarrow> e = - ENOMEM \<and> k' = k\<lparr>kmalloc_plan := kmalloc_plan k'\<rparr>)"
proof -
  define n where "n = n_pages_of (size_buf buffer)"
  obtain t k1 where km1: "kmalloc k (SgTable \<lparr>sgl = 0, nents = 0\<rparr>) = (t, k1)"
    by (cases "kmalloc k (SgTable \<lparr>sgl = 0, nents = 0\<rparr>)")
  show ?thesis
  proof (cases "t = 0")
    case True
    with kmalloc_cases [OF km1] map_dma_null_table(1) [of k k1 buffer] km1
    show ?thesis by simp
  next
    case t: False
    with kmalloc_cases [OF km1]
    have fresh: "slab k t = None"
      and k1: "k1 = k\<lparr>kmalloc_plan := kmalloc_plan k1,
        slab := (slab k)(t \<mapsto> SgTable \<lparr>sgl = 0, nents = 0\<rparr>)\<rparr>"
      by simp_all
    obtain e k2 where km2: "kmalloc k1 (SgEntries (replicate n sg_clear)) = (e, k2)"
      by (cases "kmalloc k1 (SgEntries (replicate n sg_clear))")
    show ?thesis
    proof (cases "e = 0")
      case True
      with sg_alloc_table_null [OF t fresh k1, of n k2] km2
      have "sg_alloc_table k1 t n = Done (- ENOMEM, k2)"
        and "kfree k2 t = k\<lparr>kmalloc_plan := kmalloc_plan k2\<rparr>"
        by simp_all
      with km1 t have "ion_system_heap_map_dma k buffer =
          Done (Inl (- ENOMEM), k\<lparr>kmalloc_plan := kmalloc_plan k2\<rparr>)"
        by (simp add: ion_system_heap_map_dma_def n_def)
      then show ?thesis by simp
    next
      case e: False
      define k3 where "k3 = k\<lparr>kmalloc_plan := kmalloc_plan k2,
        slab := (slab k)(e \<mapsto> SgEntries (replicate n sg_clear),
          t \<mapsto> SgTable \<lparr>sgl = e, nents = n\<rparr>)\<rparr>"
      from sg_alloc_table_ok [OF t fresh k1 km2 e]
      have et: "e \<noteq> t" and efresh: "slab k e = None"
        and sat: "sg_alloc_table k1 t n = Done (0, k3)"
        by (simp_all add: k3_def)
      have tab: "table_at k3 t = Some \<lparr>sgl = e, nents = n\<rparr>"
        using t by (simp add: table_at_def k3_def)
      have "slab k3 e = Some (SgEntries (replicate n sg_clear))"
        using et by (simp add: k3_def)
      from sg_fill_shape [OF e this, of n 0 "priv_virt buffer"]
      obtain bv es' where fill: "sg_fill k3 e n 0 (priv_virt buffer) =
          Done (bv, k3\<lparr>slab := (slab k3)(e \<mapsto> SgEntries es')\<rparr>)"
        by auto
      define k4 where "k4 = k3\<lparr>slab := (slab k3)(e \<mapsto> SgEntries es')\<rparr>"
      show ?thesis
      proof (cases bv)
        case True
        with km1 t sat tab fill have "ion_system_heap_map_dma k buffer = Done (Inr t, k4)"
          by (simp add: ion_system_heap_map_dma_def n_def k4_def)
        then show ?thesis by simp
      next
        case False
        have tab4: "table_at k4 t = Some \<lparr>sgl = e, nents = n\<rparr>"
          using t et by (simp add: table_at_def k4_def k3_def)
        define k5 where "k5 = (kfree k4 e)\<lparr>slab :=
          (slab (kfree k4 e))(t \<mapsto> SgTable \<lparr>sgl = 0, nents = n\<rparr>)\<rparr>"
        have sft: "sg_free_table k4 t = Done k5"
          using tab4 by (simp add: sg_free_table_def k5_def Let_def)
        have "(slab k5)(t := None) = slab k"
          using e t et fresh efresh
          by (auto simp: fun_eq_iff k5_def k4_def k3_def kfree_def)
        then have "kfree k5 t = k\<lparr>kmalloc_plan := kmalloc_plan k2\<rparr>"
          using t e by (simp add: kfree_def) (simp add: k5_def k4_def k3_def kfree_def)
        with km1 t sat tab fill False sft
        have "ion_system_heap_map_dma k buffer =
            Done (Inl (- ENOMEM), k\<lparr>kmalloc_plan := kmalloc_plan k2\<rparr>)"
          by (simp add: ion_system_heap_map_dma_def n_def k4_def)
        then show ?thesis by simp
      qed
    qed
  qed
qed

lemma contig_map_dma_outcome:
  "\<exists>r k'. ion_system_contig_heap_map_dma k buffer = Done (r, k') \<and>
     (\<forall>e. r = Inl e \<longrightarrow> e = - ENOMEM \<and> k' = k\<lparr>kmalloc_plan := kmalloc_plan k'\<rparr>)"
proof -
  obtain t k1 where km1: "kmalloc k (SgTable \<lparr>sgl = 0, nents = 0\<rparr>) = (t, k1)"
    by (cases "kmalloc k (SgTable \<lparr>sgl = 0, nents = 0\<rparr>)")
  show ?thesis
  proof (cases "t = 0")
    case True
    with kmalloc_cases [OF km1] map_dma_null_table(2) [of k k1 buffer] km1
    show ?thesis by simp
  next
    case t: False
    with kmalloc_cases [OF km1]
    have fresh: "slab k t = None"
      and k1: "k1 = k\<lparr>kmalloc_plan := kmalloc_plan k1,
        slab := (slab k)(t \<mapsto> SgTable \<lparr>sgl = 0, nents = 0\<rparr>)\<rparr>"
      by simp_all
    obtain e k2 where km2: "kmalloc k1 (SgEntries (replicate 1 sg_clear)) = (e, k2)"
      by (cases "kmalloc k1 (SgEntries (replicate 1 sg_clear))")
    show ?thesis
    proof (cases "e = 0")
      case True
      with sg_alloc_table_null [OF t fresh k1, of 1 k2] km2
      have "sg_alloc_table k1 t 1 = Done (- ENOMEM, k2)"
        and "kfree k2 t = k\<lparr>kmalloc_plan := kmalloc_plan k2\<rparr>"
        by simp_all
      with km1 t have "ion_system_contig_heap_map_dma k buffer =
          Done (Inl (- ENOMEM), k\<lparr>kmalloc_plan := kmalloc_plan k2\<rparr>)"
        by (simp add: ion_system_contig_heap_map_dma_def)
      then show ?thesis by simp
    next
      case e: False
      define k3 where "k3 = k\<lparr>kmalloc_plan := kmalloc_plan k2,
        slab := (slab k)(e \<mapsto> SgEntries (replicate 1 sg_clear),
          t \<mapsto> SgTable \<lparr>sgl = e, nents = 1\<rparr>)\<rparr>"
      from sg_alloc_table_ok [OF t fresh k1 km2 e]
      have et: "e \<noteq> t" and sat: "sg_alloc_table k1 t 1 = Done (0, k3)"
        by (simp_all add: k3_def)
      have tab: "table_at k3 t = Some \<lparr>sgl = e, nents = 1\<rparr>"
        using t by (simp add: table_at_def k3_def)
      have "\<exists>k4. sg_set_page k3 e 0 (lowmem_page k3 (priv_virt buffer)) (size_buf buffer) 0 =
          Some k4"
        using e et by (simp add: sg_set_page_def k3_def)
      then obtain k4 where
        "sg_set_page k3 e 0 (lowmem_page k3 (priv_virt buffer)) (size_buf buffer) 0 = Some k4"
        by blast
      with km1 t sat tab have "ion_system_contig_heap_map_dma k buffer = Done (Inr t, k4)"
        by (simp add: ion_system_contig_heap_map_dma_def)
      then show ?thesis by simp
    qed
  qed
qed

text \<open>
  The second step fails: the entry table is not obtained.
\<close>

lemma map_dma_null_entries:
  assumes "kmalloc k (SgTable \<lparr>sgl = 0, nents = 0\<rparr>) = (t, k1)" and "t \<noteq> 0"
    and "kmalloc k1 (SgEntries (replicate n sg_clear)) = (0, k2)"
  shows "n = n_pages_of (size_buf buffer) \<longrightarrow>
      ion_system_heap_map_dma k buffer =
        Done (Inl (- ENOMEM), k\<lparr>kmalloc_plan := kmalloc_plan k2\<rparr>)"
    and "n = 1 \<longrightarrow>
      ion_system_contig_heap_map_dma k buffer =
        Done (Inl (- ENOMEM), k\<lparr>kmalloc_plan := kmalloc_plan k2\<rparr>)"
proof -
  from kmalloc_cases [OF assms(1)] assms(2)
  have fresh: "slab k t = None"
    and k1: "k1 = k\<lparr>kmalloc_plan := kmalloc_plan k1,
      slab := (slab k)(t \<mapsto> SgTable \<lparr>sgl = 0, nents = 0\<rparr>)\<rparr>"
    by simp_all
  from sg_alloc_table_null [OF assms(2) fresh k1 assms(3)]
  have sat: "sg_alloc_table k1 t n = Done (- ENOMEM, k2)"
    and kf: "kfree k2 t = k\<lparr>kmalloc_plan := kmalloc_plan k2\<rparr>"
    by simp_all
  show "n = n_pages_of (size_buf buffer) \<longrightarrow>
      ion_system_heap_map_dma k buffer =
        Done (Inl (- ENOMEM), k\<lparr>kmalloc_plan := kmalloc_plan k2\<rparr>)"
    using assms(1,2) sat kf by (auto simp: ion_system_heap_map_dma_def)
  show "n = 1 \<longrightarrow>
      ion_system_contig_heap_map_dma k buffer =
        Done (Inl (- ENOMEM), k\<lparr>kmalloc_plan := kmalloc_plan k2\<rparr>)"
    using assms(1,2) sat kf by (auto simp: ion_system_contig_heap_map_dma_def)
qed

text \<open>
  Claim C7. For both heaps \<^verbatim>\<open>map_dma\<close> always returns, and whenever it returns an error
  (\<open>Inl e\<close>) the kernel is the one before the call but for the used-up plan: the same live
  slab objects, so neither a description structure nor an entry table of this call is
  left allocated. A failed allocation of the description structure makes the call return
  \<^verbatim>\<open>-ENOMEM\<close>; a failed allocation of the entry table makes it release the description
  structure and return \<^verbatim>\<open>-ENOMEM\<close>. (In the system heap a third failure, a page that
  \<^verbatim>\<open>vmalloc_to_page\<close> does not find, releases the entry table and then the structure; it is
  covered by the first two conjuncts.)
\<close>

theorem map_dma_failure_unwinds:
  "(\<exists>r k'. ion_system_heap_map_dma k buffer = Done (r, k') \<and>
      (\<forall>e. r = Inl e \<longrightarrow> e = - ENOMEM \<and> k' = k\<lparr>kmalloc_plan := kmalloc_plan k'\<rparr>)) \<and>
   (\<exists>r k'. ion_system_contig_heap_map_dma k buffer = Done (r, k') \<and>
      (\<forall>e. r = Inl e \<longrightarrow> e = - ENOMEM \<and> k' = k\<lparr>kmalloc_plan := kmalloc_plan k'\<rparr>)) \<and>
   (kmalloc k (SgTable \<lparr>sgl = 0, nents = 0\<rparr>) = (0, k1) \<longrightarrow>
      ion_system_heap_map_dma k buffer = Done (Inl (- ENOMEM), k1) \<and>
      ion_system_contig_heap_map_dma k buffer = Done (Inl (- ENOMEM), k1)) \<and>
   (kmalloc k (SgTable \<lparr>sgl = 0, nents = 0\<rparr>) = (t, k1) \<and> t \<noteq> 0 \<and>
    kmalloc k1 (SgEntries (replicate (n_pages_of (size_buf buffer)) sg_clear)) = (0, k2) \<longrightarrow>
      ion_system_heap_map_dma k buffer =
        Done (Inl (- ENOMEM), k\<lparr>kmalloc_plan := kmalloc_plan k2\<rparr>)) \<and>
   (kmalloc k (SgTable \<lparr>sgl = 0, nents = 0\<rparr>) = (t, k1) \<and> t \<noteq> 0 \<and>
    kmalloc k1 (SgEntries (replicate 1 sg_clear)) = (0, k2) \<longrightarrow>
      ion_system_contig_heap_map_dma k buffer =
        Done (Inl (- ENOMEM), k\<lparr>kmalloc_plan := kmalloc_plan k2\<rparr>))"
proof (intro conjI impI)
  show "\<exists>r k'. ion_system_heap_map_dma k buffer = Done (r, k') \<and>
      (\<forall>e. r = Inl e \<longrightarrow> e = - ENOMEM \<and> k' = k\<lparr>kmalloc_plan := kmalloc_plan k'\<rparr>)"
    by (rule system_map_dma_outcome)
  show "\<exists>r k'. ion_system_contig_heap_map_dma k buffer = Done (r, k') \<and>
      (\<forall>e. r = Inl e \<longrightarrow> e = - ENOMEM \<and> k' = k\<lparr>kmalloc_plan := kmalloc_plan k'\<rparr>)"
    by (rule contig_map_dma_outcome)
next
  assume "kmalloc k (SgTable \<lparr>sgl = 0, nents = 0\<rparr>) = (0, k1)"
  then show "ion_system_heap_map_dma k buffer = Done (Inl (- ENOMEM), k1)"
    and "ion_system_contig_heap_map_dma k buffer = Done (Inl (- ENOMEM), k1)"
    by (rule map_dma_null_table)+
next
  assume "kmalloc k (SgTable \<lparr>sgl = 0, nents = 0\<rparr>) = (t, k1) \<and> t \<noteq> 0 \<and>
    kmalloc k1 (SgEntries (replicate (n_pages_of (size_buf buffer)) sg_clear)) = (0, k2)"
  then show "ion_system_heap_map_dma k buffer =
        Done (Inl (- ENOMEM), k\<lparr>kmalloc_plan := kmalloc_plan k2\<rparr>)"
    using map_dma_null_entries(1) [of k t k1 "n_pages_of (size_buf buffer)" k2 buffer] by simp
next
  assume "kmalloc k (SgTable \<lparr>sgl = 0, nents = 0\<rparr>) = (t, k1) \<and> t \<noteq> 0 \<and>
    kmalloc k1 (SgEntries (replicate 1 sg_clear)) = (0, k2)"
  then show "ion_system_contig_heap_map_dma k buffer =
        Done (Inl (- ENOMEM), k\<lparr>kmalloc_plan := kmalloc_plan k2\<rparr>)"
    using map_dma_null_entries(2) [of k t k1 1 k2 buffer] by simp
qed

text \<open>
  The entry table of a system-heap mapping is not obtained; the description structure of
  a contiguous mapping is not obtained.
\<close>

theorem map_dma_failure_unwinds_witness:
  "ion_system_heap_map_dma
     (idle_kernel\<lparr>kmalloc_plan := [0xC0002000, 0], slab := [0xC0001000 \<mapsto> PageArray [5]]\<rparr>)
     \<lparr>size_buf = 4096, priv_virt = 0xC0001000, sg_table = 0, vaddr = 0\<rparr> =
   Done (Inl (- ENOMEM), idle_kernel\<lparr>slab := [0xC0001000 \<mapsto> PageArray [5]]\<rparr>) \<and>
   ion_system_contig_heap_map_dma
     (idle_kernel\<lparr>kmalloc_plan := [0], slab := [0xC0100000 \<mapsto> ZeroBlock 4096]\<rparr>)
     \<lparr>size_buf = 4096, priv_virt = 0xC0100000, sg_table = 0, vaddr = 0\<rparr> =
   Done (Inl (- ENOMEM), idle_kernel\<lparr>slab := [0xC0100000 \<mapsto> ZeroBlock 4096]\<rparr>)"
proof -
  define k where "k = idle_kernel\<lparr>kmalloc_plan := [0xC0002000, 0],
    slab := [0xC0001000 \<mapsto> PageArray [5]]\<rparr>"
  define k1 where "k1 = idle_kernel\<lparr>kmalloc_plan := [0],
    slab := [0xC0001000 \<mapsto> PageArray [5], 0xC0002000 \<mapsto> SgTable \<lparr>sgl = 0, nents = 0\<rparr>]\<rparr>"
  define k2 where "k2 = idle_kernel\<lparr>kmalloc_plan := [],
    slab := [0xC0001000 \<mapsto> PageArray [5], 0xC0002000 \<mapsto> SgTable \<lparr>sgl = 0, nents = 0\<rparr>]\<rparr>"
  define b where "b = \<lparr>size_buf = 4096, priv_virt = 0xC0001000, sg_table = 0, vaddr = 0\<rparr>"
  define c where "c = idle_kernel\<lparr>kmalloc_plan := [0],
    slab := [0xC0100000 \<mapsto> ZeroBlock 4096]\<rparr>"
  define c1 where "c1 = idle_kernel\<lparr>kmalloc_plan := [],
    slab := [0xC0100000 \<mapsto> ZeroBlock 4096]\<rparr>"
  define cb where "cb = \<lparr>size_buf = 4096, priv_virt = 0xC0100000, sg_table = 0, vaddr = 0\<rparr>"
  have n: "n_pages_of (size_buf b) = 1"
    by (simp add: b_def n_pages_of_drop)
  have hyp: "kmalloc k (SgTable \<lparr>sgl = 0, nents = 0\<rparr>) = (0xC0002000, k1) \<and>
      (0xC0002000 :: addr) \<noteq> 0 \<and>
      kmalloc k1 (SgEntries (replicate (n_pages_of (size_buf b)) sg_clear)) = (0, k2)"
    unfolding n by (simp add: kmalloc_def k_def k1_def k2_def idle_kernel_def)
  have chyp: "kmalloc c (SgTable \<lparr>sgl = 0, nents = 0\<rparr>) = (0, c1)"
    by (simp add: kmalloc_def c_def c1_def idle_kernel_def)
  from map_dma_failure_unwinds [of k b k1 "0xC0002000" k2] hyp
  have "ion_system_heap_map_dma k b = Done (Inl (- ENOMEM), k\<lparr>kmalloc_plan := kmalloc_plan k2\<rparr>)"
    by blast
  moreover from map_dma_failure_unwinds [of c cb c1 0 c1] chyp
  have "ion_system_contig_heap_map_dma c cb = Done (Inl (- ENOMEM), c1)"
    by blast
  moreover have "k\<lparr>kmalloc_plan := kmalloc_plan k2\<rparr> =
      idle_kernel\<lparr>slab := [0xC0001000 \<mapsto> PageArray [5]]\<rparr>"
    by (simp add: k_def k2_def idle_kernel_def)
  moreover have "c1 = idle_kernel\<lparr>slab := [0xC0100000 \<mapsto> ZeroBlock 4096]\<rparr>"
    by (simp add: c1_def idle_kernel_def)
  ultimately show ?thesis
    by (simp add: k_def b_def c_def cb_def)
qed

text \<open>
  Claim C3 says that entry \<open>i\<close> of a successful \<^verbatim>\<open>map_dma\<close> references page \<open>i\<close> of the backing
  list. \<^verbatim>\<open>ion_system_heap_map_dma\<close> starts its walk at \<^verbatim>\<open>buffer->priv_virt\<close>, which
  \<^verbatim>\<open>ion_system_heap_allocate\<close> set to the address of the slot array, and asks
  \<^verbatim>\<open>vmalloc_to_page\<close> for the page mapped at that address; it never reads a slot. For a
  buffer of one page, backed by page \<open>5\<close>, with the kernel page table mapping page \<open>9\<close> at
  the address of the slot array, the call succeeds with one entry of length \<^verbatim>\<open>PAGE_SIZE\<close> and
  offset \<open>0\<close> that references page \<open>9\<close>. With nothing mapped at that address it fails with
  \<^verbatim>\<open>-ENOMEM\<close>.
\<close>

theorem map_dma_ignores_page_list:
  "ion_system_heap_allocate
     (idle_kernel\<lparr>kmalloc_plan := [0xC0001000, 0xC0002000, 0xC0003000], page_plan := [5],
        kpt := [0xC0001000 \<mapsto> 9]\<rparr>)
     (fresh_buffer 4096) 4096 =
   Done (0, idle_kernel\<lparr>kmalloc_plan := [0xC0002000, 0xC0003000], pages_held := {#5#},
       slab := [0xC0001000 \<mapsto> PageArray [5]], kpt := [0xC0001000 \<mapsto> 9]\<rparr>,
     \<lparr>size_buf = 4096, priv_virt = 0xC0001000, sg_table = 0, vaddr = 0\<rparr>) \<and>
   ion_system_heap_map_dma
     (idle_kernel\<lparr>kmalloc_plan := [0xC0002000, 0xC0003000], pages_held := {#5#},
       slab := [0xC0001000 \<mapsto> PageArray [5]], kpt := [0xC0001000 \<mapsto> 9]\<rparr>)
     \<lparr>size_buf = 4096, priv_virt = 0xC0001000, sg_table = 0, vaddr = 0\<rparr> =
   Done (Inr 0xC0002000, idle_kernel\<lparr>pages_held := {#5#},
       slab := [0xC0001000 \<mapsto> PageArray [5],
         0xC0002000 \<mapsto> SgTable \<lparr>sgl = 0xC0003000, nents = 1\<rparr>,
         0xC0003000 \<mapsto> SgEntries [\<lparr>sg_page = 9, sg_length = 4096, sg_offset = 0\<rparr>]],
       kpt := [0xC0001000 \<mapsto> 9]\<rparr>) \<and>
   ion_system_heap_map_dma
     (idle_kernel\<lparr>kmalloc_plan := [0xC0002000, 0xC0003000], pages_held := {#5#},
       slab := [0xC0001000 \<mapsto> PageArray [5]]\<rparr>)
     \<lparr>size_buf = 4096, priv_virt = 0xC0001000, sg_table = 0, vaddr = 0\<rparr> =
   Done (Inl (- ENOMEM), idle_kernel\<lparr>pages_held := {#5#},
       slab := [0xC0001000 \<mapsto> PageArray [5]]\<rparr>)"
proof (intro conjI)
  show "ion_system_heap_allocate
     (idle_kernel\<lparr>kmalloc_plan := [0xC0001000, 0xC0002000, 0xC0003000], page_plan := [5],
        kpt := [0xC0001000 \<mapsto> 9]\<rparr>)
     (fresh_buffer 4096) 4096 =
   Done (0, idle_kernel\<lparr>kmalloc_plan := [0xC0002000, 0xC0003000], pages_held := {#5#},
       slab := [0xC0001000 \<mapsto> PageArray [5]], kpt := [0xC0001000 \<mapsto> 9]\<rparr>,
     \<lparr>size_buf = 4096, priv_virt = 0xC0001000, sg_table = 0, vaddr = 0\<rparr>)"
    using allocate_succeeds [of "idle_kernel\<lparr>kmalloc_plan := [0xC0001000, 0xC0002000, 0xC0003000],
        page_plan := [5], kpt := [0xC0001000 \<mapsto> 9]\<rparr>" "0xC0001000" "[0xC0002000, 0xC0003000]"
        "[5]" "[]" 4096 "fresh_buffer 4096"]
    by (simp add: n_pages_of_drop idle_kernel_def fresh_buffer_def)
next
  show "ion_system_heap_map_dma
     (idle_kernel\<lparr>kmalloc_plan := [0xC0002000, 0xC0003000], pages_held := {#5#},
       slab := [0xC0001000 \<mapsto> PageArray [5]], kpt := [0xC0001000 \<mapsto> 9]\<rparr>)
     \<lparr>size_buf = 4096, priv_virt = 0xC0001000, sg_table = 0, vaddr = 0\<rparr> =
   Done (Inr 0xC0002000, idle_kernel\<lparr>pages_held := {#5#},
       slab := [0xC0001000 \<mapsto> PageArray [5],
         0xC0002000 \<mapsto> SgTable \<lparr>sgl = 0xC0003000, nents = 1\<rparr>,
         0xC0003000 \<mapsto> SgEntries [\<lparr>sg_page = 9, sg_length = 4096, sg_offset = 0\<rparr>]],
       kpt := [0xC0001000 \<mapsto> 9]\<rparr>)"
    by (simp add: ion_system_heap_map_dma_def n_pages_of_drop kmalloc_def sg_alloc_table_def
        table_at_def sg_fill.simps vmalloc_to_page_def sg_set_page_def sg_clear_def
        PAGE_SIZE_val idle_kernel_def fun_upd_twist)
next
  show "ion_system_heap_map_dma
     (idle_kernel\<lparr>kmalloc_plan := [0xC0002000, 0xC0003000], pages_held := {#5#},
       slab := [0xC0001000 \<mapsto> PageArray [5]]\<rparr>)
     \<lparr>size_buf = 4096, priv_virt = 0xC0001000, sg_table = 0, vaddr = 0\<rparr> =
   Done (Inl (- ENOMEM), idle_kernel\<lparr>pages_held := {#5#},
       slab := [0xC0001000 \<mapsto> PageArray [5]]\<rparr>)"
    by (simp add: ion_system_heap_map_dma_def n_pages_of_drop kmalloc_def sg_alloc_table_def
        table_at_def sg_fill.simps vmalloc_to_page_def sg_set_page_def sg_clear_def
        sg_free_table_def kfree_def Let_def
        PAGE_SIZE_val idle_kernel_def fun_upd_twist)
qed

text \<open>
  Claim C9, as the code has it. \<^verbatim>\<open>ion_system_heap_unmap_dma\<close> tests the pointer: with
  \<^verbatim>\<open>buffer->sg_table\<close> \<^verbatim>\<open>NULL\<close> the call changes nothing. With a pointer to a live description
  it releases the entry table and then the description structure. Only a pointer that is
  neither \<^verbatim>\<open>NULL\<close> nor live, such as the one a second call finds, is not caught: the call
  faults.
\<close>

theorem unmap_dma_guard:
  "(sg_table buffer = 0 \<longrightarrow> ion_system_heap_unmap_dma k buffer = Done k) \<and>
   (sg_table buffer \<noteq> 0 \<and> table_at k (sg_table buffer) = Some t \<longrightarrow>
      ion_system_heap_unmap_dma k buffer =
        Done (k\<lparr>slab := (if sgl t = 0 then slab k else (slab k)(sgl t := None))
          (sg_table buffer := None)\<rparr>)) \<and>
   (sg_table buffer \<noteq> 0 \<and> table_at k (sg_table buffer) = None \<longrightarrow>
      ion_system_heap_unmap_dma k buffer = Oops)"
  by (simp add: ion_system_heap_unmap_dma_def sg_free_table_def kfree_def Let_def)

text \<open>
  A live description of one entry is released whole; the same pointer once more faults.
\<close>

theorem unmap_dma_guard_witness:
  "ion_system_heap_unmap_dma
     (idle_kernel\<lparr>slab := [0xC0002000 \<mapsto> SgTable \<lparr>sgl = 0xC0003000, nents = 1\<rparr>,
        0xC0003000 \<mapsto> SgEntries [\<lparr>sg_page = 9, sg_length = 4096, sg_offset = 0\<rparr>]]\<rparr>)
     \<lparr>size_buf = 4096, priv_virt = 0xC0001000, sg_table = 0xC0002000, vaddr = 0\<rparr> =
   Done idle_kernel \<and>
   ion_system_heap_unmap_dma idle_kernel
     \<lparr>size_buf = 4096, priv_virt = 0xC0001000, sg_table = 0xC0002000, vaddr = 0\<rparr> = Oops"
proof -
  define k where "k = idle_kernel\<lparr>slab :=
    [0xC0002000 \<mapsto> SgTable \<lparr>sgl = 0xC0003000, nents = 1\<rparr>,
     0xC0003000 \<mapsto> SgEntries [\<lparr>sg_page = 9, sg_length = 4096, sg_offset = 0\<rparr>]]\<rparr>"
  define b where
    "b = \<lparr>size_buf = 4096, priv_virt = 0xC0001000, sg_table = 0xC0002000, vaddr = 0\<rparr>"
  have live: "sg_table b \<noteq> 0 \<and>
      table_at k (sg_table b) = Some \<lparr>sgl = 0xC0003000, nents = 1\<rparr>"
    by (simp add: table_at_def k_def b_def)
  have gone: "sg_table b \<noteq> 0 \<and> table_at idle_kernel (sg_table b) = None"
    by (simp add: table_at_def idle_kernel_def b_def)
  from unmap_dma_guard [of b k "\<lparr>sgl = 0xC0003000, nents = 1\<rparr>"] live
  have "ion_system_heap_unmap_dma k b =
      Done (k\<lparr>slab := ((slab k)(0xC0003000 := None))(sg_table b := None)\<rparr>)"
    by simp
  moreover have "k\<lparr>slab := ((slab k)(0xC0003000 := None))(sg_table b := None)\<rparr> = idle_kernel"
    by (simp add: k_def b_def idle_kernel_def)
  moreover from unmap_dma_guard [of b idle_kernel] gone
  have "ion_system_heap_unmap_dma idle_kernel b = Oops"
    by simp
  ultimately show ?thesis
    by (simp add: k_def b_def)
qed

text \<open>
  Claim C9 as stated has no guard for a buffer without a device view. On a buffer that
  was never mapped (\<^verbatim>\<open>sg_table\<close> is \<^verbatim>\<open>NULL\<close>) the call returns and the kernel is unchanged.
\<close>

theorem unmap_dma_guard_counterexample:
  "ion_system_heap_unmap_dma (idle_kernel\<lparr>slab := [0xC0001000 \<mapsto> PageArray [5]]\<rparr>)
     \<lparr>size_buf = 4096, priv_virt = 0xC0001000, sg_table = 0, vaddr = 0\<rparr> =
   Done (idle_kernel\<lparr>slab := [0xC0001000 \<mapsto> PageArray [5]]\<rparr>)"
  by (simp add: ion_system_heap_unmap_dma_def kfree_def)

subsection \<open>Kernel mapping of a contiguous buffer\<close>

text \<open>
  Claim C4 says that \<^verbatim>\<open>map_kernel\<close> of the system-contig heap maps the pages of the block
  and returns the base of the mapping. \<^verbatim>\<open>kmalloc_ops\<close> binds \<^verbatim>\<open>map_kernel\<close> to
  \<^verbatim>\<open>ion_system_heap_map_kernel\<close>, which hands \<^verbatim>\<open>buffer->priv_virt\<close> to \<^verbatim>\<open>vm_map_ram\<close> as an
  array of page pointers; for a contiguous buffer it is the zeroed block itself. For a
  block of 4096 bytes the one page pointer read is \<^verbatim>\<open>NULL\<close> (last conjunct): the call
  returns \<^verbatim>\<open>NULL\<close> and the kernel page table is as it was.
\<close>

theorem contig_map_kernel_maps_nothing:
  "allocate kmalloc_ops (idle_kernel\<lparr>kmalloc_plan := [0xC0100000], vmap_plan := [0xF0000000]\<rparr>)
     (fresh_buffer 4096) 4096 =
   Done (0, idle_kernel\<lparr>vmap_plan := [0xF0000000], slab := [0xC0100000 \<mapsto> ZeroBlock 4096]\<rparr>,
     \<lparr>size_buf = 4096, priv_virt = 0xC0100000, sg_table = 0, vaddr = 0\<rparr>) \<and>
   map_kernel kmalloc_ops
     (idle_kernel\<lparr>vmap_plan := [0xF0000000], slab := [0xC0100000 \<mapsto> ZeroBlock 4096]\<rparr>)
     \<lparr>size_buf = 4096, priv_virt = 0xC0100000, sg_table = 0, vaddr = 0\<rparr> =
   Done (0, idle_kernel\<lparr>slab := [0xC0100000 \<mapsto> ZeroBlock 4096]\<rparr>) \<and>
   load_slots (idle_kernel\<lparr>vmap_plan := [0xF0000000], slab := [0xC0100000 \<mapsto> ZeroBlock 4096]\<rparr>)
     0xC0100000 1 = Some [0]"
  by (simp add: kmalloc_ops_def ion_system_contig_heap_allocate_def kmalloc_def
      ion_system_heap_map_kernel_def vm_map_ram_def load_slot_def n_pages_of_drop
      idle_kernel_def fresh_buffer_def)

subsection \<open>The page count across the operations\<close>







end
